theory Spec2Isabelle
  imports Complex_Main
begin

section \<open>Text: Python strings as lists of code points\<close>

text \<open>
  A Python \<open>str\<close> is a sequence of Unicode code points, and the bot's patterns are written
  in Hangul, so a string is a list of code points here (\<open>#\<close> is 35, \<open>0\<close>..\<open>9\<close> are
  48..57, the line feed is 10; the Hangul syllables used by the patterns are named below).
\<close>

type_synonym cp = nat
type_synonym ustr = "cp list"

datatype exn = ValueError | TypeError | PageError

text \<open>
  What the program takes from its interpreter and its environment: the Unicode tables
  outside ASCII (decimal digits for \<open>\d\<close> and \<open>int\<close>, the further digits of
  \<open>str.isdigit\<close>, the alphanumerics of \<open>\w\<close>, \<open>str.lower\<close>), the interpreter's
  limit on the number of digits \<open>int\<close> converts (0 is no limit), and the environment
  variable \<open>BOT_NAME\<close>. Every function below takes them as the parameter \<open>rt\<close>.
\<close>

record runtime =
  nd_value :: "cp \<Rightarrow> nat option"
  other_digit :: "cp \<Rightarrow> bool"
  other_alnum :: "cp \<Rightarrow> bool"
  str_lower :: "ustr \<Rightarrow> ustr"
  int_max_str_digits :: nat
  BOT_NAME :: ustr

definition is_space :: "cp \<Rightarrow> bool" where
  \<comment> \<open>\<open>str.isspace\<close> of one character; also \<open>\s\<close> and what \<open>str.strip\<close> removes\<close>
  "is_space c \<longleftrightarrow>
     (9 \<le> c \<and> c \<le> 13) \<or> (28 \<le> c \<and> c \<le> 32) \<or> c = 133 \<or> c = 160 \<or> c = 5760 \<or>
     (8192 \<le> c \<and> c \<le> 8202) \<or> c = 8232 \<or> c = 8233 \<or> c = 8239 \<or> c = 8287 \<or> c = 12288"

definition is_hangul :: "cp \<Rightarrow> bool" where
  \<comment> \<open>the character range \<open>[U+AC00-U+D7A3]\<close> of the natural-language pattern\<close>
  "is_hangul c \<longleftrightarrow> 44032 \<le> c \<and> c \<le> 55203"

definition is_decimal :: "runtime \<Rightarrow> cp \<Rightarrow> bool" where
  \<comment> \<open>\<open>\d\<close>: ASCII digits, and outside ASCII, whitespace and Hangul what the table says\<close>
  "is_decimal rt c \<longleftrightarrow>
     (if c < 128 then 48 \<le> c \<and> c \<le> 57
      else \<not> is_space c \<and> \<not> is_hangul c \<and> nd_value rt c \<noteq> None)"

definition digit_value :: "runtime \<Rightarrow> cp \<Rightarrow> nat" where
  "digit_value rt c =
     (if c < 128 then c - 48 else (case nd_value rt c of Some v \<Rightarrow> v mod 10 | None \<Rightarrow> 0))"

definition is_digit :: "runtime \<Rightarrow> cp \<Rightarrow> bool" where
  \<comment> \<open>\<open>str.isdigit\<close> of one character\<close>
  "is_digit rt c \<longleftrightarrow>
     is_decimal rt c \<or> (128 \<le> c \<and> \<not> is_space c \<and> \<not> is_hangul c \<and> other_digit rt c)"

definition is_word :: "runtime \<Rightarrow> cp \<Rightarrow> bool" where
  \<comment> \<open>\<open>\w\<close>: alphanumeric or underscore\<close>
  "is_word rt c \<longleftrightarrow>
     (if c < 128 then (48 \<le> c \<and> c \<le> 57) \<or> (65 \<le> c \<and> c \<le> 90) \<or> (97 \<le> c \<and> c \<le> 122) \<or> c = 95
      else is_hangul c \<or> (\<not> is_space c \<and> (is_digit rt c \<or> other_alnum rt c)))"

definition strip :: "ustr \<Rightarrow> ustr" where
  "strip s = rev (dropWhile is_space (rev (dropWhile is_space s)))"

definition isdigit :: "runtime \<Rightarrow> ustr \<Rightarrow> bool" where
  "isdigit rt s \<longleftrightarrow> s \<noteq> [] \<and> list_all (is_digit rt) s"

definition digits_value :: "runtime \<Rightarrow> ustr \<Rightarrow> nat" where
  "digits_value rt ds = foldl (\<lambda>a c. 10 * a + digit_value rt c) 0 ds"

definition py_int :: "runtime \<Rightarrow> ustr \<Rightarrow> exn + int" where
  \<comment> \<open>\<open>int(text)\<close> on a run of decimal digits; beyond 640 digits the interpreter's limit applies\<close>
  "py_int rt ds =
     (if 640 < length ds \<and> 0 < int_max_str_digits rt \<and> int_max_str_digits rt < length ds
      then Inl ValueError
      else Inr (int (digits_value rt ds)))"

section \<open>Regular expressions\<close>

text \<open>
  The patterns of the program use single-character items (literals, classes, \<open>.\<close>),
  quantifiers on such items (greedy or lazy), sequence, alternation, capturing groups and
  the anchors \<open>^\<close> and \<open>$\<close>. A match state is the number of characters consumed, the
  rest of the subject and the groups captured so far. \<open>ms r x\<close> lists the states in which
  \<open>r\<close> can stop from \<open>x\<close>, in the order in which a backtracking matcher tries them: a
  greedy quantifier first takes one more character, a lazy one first stops.
\<close>

datatype re =
    Chr "cp \<Rightarrow> bool"
  | Rep bool nat "nat option" "cp \<Rightarrow> bool"
  | Seq re re
  | Alt re re
  | Grp nat re
  | Bol
  | Eol
  | Eps

type_synonym groups = "nat \<Rightarrow> ustr option"
type_synonym mstate = "nat \<times> ustr \<times> groups"

fun rep :: "bool \<Rightarrow> (cp \<Rightarrow> bool) \<Rightarrow> nat \<Rightarrow> nat option \<Rightarrow> nat \<Rightarrow> ustr \<Rightarrow> (nat \<times> ustr) list" where
  "rep g p lo hi n [] = (if lo = 0 then [(n, [])] else [])"
| "rep g p lo hi n (c # cs) =
     (let more = (if p c \<and> hi \<noteq> Some 0
                  then rep g p (lo - 1) (map_option (\<lambda>h. h - 1) hi) (Suc n) cs else []);
          stop = (if lo = 0 then [(n, c # cs)] else [])
      in if g then more @ stop else stop @ more)"

fun ms :: "re \<Rightarrow> mstate \<Rightarrow> mstate list" where
  "ms (Chr p) (n, s, G) = (case s of [] \<Rightarrow> [] | c # cs \<Rightarrow> if p c then [(Suc n, cs, G)] else [])"
| "ms (Rep g lo hi p) (n, s, G) = map (\<lambda>(n', s'). (n', s', G)) (rep g p lo hi n s)"
| "ms (Seq a b) x = concat (map (ms b) (ms a x))"
| "ms (Alt a b) x = ms a x @ ms b x"
| "ms (Grp i r) (n, s, G) =
     map (\<lambda>(n', s', G'). (n', s', G'(i \<mapsto> take (n' - n) s))) (ms r (n, s, G))"
| "ms Bol (n, s, G) = (if n = 0 then [(n, s, G)] else [])"
| "ms Eol (n, s, G) = (if s = [] \<or> s = [10] then [(n, s, G)] else [])"
| "ms Eps x = [x]"

fun seq :: "re list \<Rightarrow> re" where
  "seq [] = Eps"
| "seq (r # rs) = Seq r (seq rs)"

definition lit :: "cp \<Rightarrow> cp \<Rightarrow> bool" where
  \<comment> \<open>a literal character without case (\<open>#\<close>, \<open>-\<close>, Hangul): \<open>re.I\<close> changes nothing\<close>
  "lit c x \<longleftrightarrow> x = c"

definition lit_i :: "cp \<Rightarrow> cp \<Rightarrow> bool" where
  \<comment> \<open>a lower-case ASCII letter under \<open>re.I\<close>\<close>
  "lit_i c x \<longleftrightarrow> x = c \<or> x + 32 = c"

definition word :: "ustr \<Rightarrow> re" where
  "word w = seq (map (\<lambda>c. Chr (lit c)) w)"

definition opt :: "(cp \<Rightarrow> bool) \<Rightarrow> re" where
  "opt p = Rep True 0 (Some 1) p"

definition star :: "(cp \<Rightarrow> bool) \<Rightarrow> re" where
  "star p = Rep True 0 None p"

definition plus :: "(cp \<Rightarrow> bool) \<Rightarrow> re" where
  "plus p = Rep True 1 None p"

definition lazy_star :: "(cp \<Rightarrow> bool) \<Rightarrow> re" where
  "lazy_star p = Rep False 0 None p"

definition re_match :: "re \<Rightarrow> ustr \<Rightarrow> groups option" where
  \<comment> \<open>\<open>pattern.match(s)\<close>: the first way to match at the start of \<open>s\<close>\<close>
  "re_match r s = (case ms r (0, s, \<lambda>_. None) of [] \<Rightarrow> None | (n, s', G) # _ \<Rightarrow> Some G)"

fun search_from :: "re \<Rightarrow> nat \<Rightarrow> ustr \<Rightarrow> bool" where
  "search_from r n [] = (ms r (n, [], \<lambda>_. None) \<noteq> [])"
| "search_from r n (c # cs) = (ms r (n, c # cs, \<lambda>_. None) \<noteq> [] \<or> search_from r (Suc n) cs)"

definition re_search :: "re \<Rightarrow> ustr \<Rightarrow> bool" where
  \<comment> \<open>\<open>pattern.search(s)\<close> used as a truth value\<close>
  "re_search r s = search_from r 0 s"

section \<open>The command patterns and the normalizer\<close>

definition hyu :: cp where "hyu = 55092"
definition sik :: cp where "sik = 49885"
definition bun :: cp where "bun = 48516"
definition swi :: cp where "swi = 49772"

definition dot :: "cp \<Rightarrow> bool" where
  \<comment> \<open>\<open>.\<close> without \<open>re.S\<close>: any character but the line feed\<close>
  "dot c \<longleftrightarrow> c \<noteq> 10"

definition tail_class :: "runtime \<Rightarrow> cp \<Rightarrow> bool" where
  \<comment> \<open>the class \<open>[U+AC00-U+D7A3\s\w]\<close>\<close>
  "tail_class rt c \<longleftrightarrow> is_hangul c \<or> is_space c \<or> is_word rt c"

definition CMD_RE :: "runtime \<Rightarrow> re" where
  \<comment> \<open>\<open>^#?\s*HYU SIK\s*(\d+)\s*(?:BUN)?\s*$\<close>\<close>
  "CMD_RE rt = seq [Bol, opt (lit 35), star is_space, Chr (lit hyu), Chr (lit sik), star is_space,
     Grp 1 (plus (is_decimal rt)), star is_space, opt (lit bun), star is_space, Eol]"

definition SHORT_RE :: "runtime \<Rightarrow> re" where
  \<comment> \<open>\<open>^\s*#\s*(\d{1,3})\s*$\<close>\<close>
  "SHORT_RE rt = seq [Bol, star is_space, Chr (lit 35), star is_space,
     Grp 1 (Rep True 1 (Some 3) (is_decimal rt)), star is_space, Eol]"

definition NATURAL_RE :: "runtime \<Rightarrow> re" where
  \<comment> \<open>\<open>^\s*(\d{1,3})\s*BUN\s*.*?(HYU SIK|SWI)[U+AC00-U+D7A3\s\w]*$\<close>\<close>
  "NATURAL_RE rt = seq [Bol, star is_space, Grp 1 (Rep True 1 (Some 3) (is_decimal rt)),
     star is_space, Chr (lit bun), star is_space, lazy_star dot,
     Grp 2 (Alt (Seq (Chr (lit hyu)) (Chr (lit sik))) (Chr (lit swi))),
     star (tail_class rt), Eol]"

definition NEAR_MISS_RE :: "runtime \<Rightarrow> re" where
  \<comment> \<open>the inline pattern \<open>^#\s*\d+\s*BUN$\<close> of the last test\<close>
  "NEAR_MISS_RE rt = seq [Bol, Chr (lit 35), star is_space, plus (is_decimal rt), star is_space,
     Chr (lit bun), Eol]"

definition int_group :: "runtime \<Rightarrow> groups \<Rightarrow> exn + int option" where
  \<comment> \<open>\<open>return int(m.group(1))\<close>\<close>
  "int_group rt G =
     (case G 1 of None \<Rightarrow> Inl TypeError
      | Some ds \<Rightarrow> (case py_int rt ds of Inl e \<Rightarrow> Inl e | Inr v \<Rightarrow> Inr (Some v)))"

definition normalize_cmd_text :: "runtime \<Rightarrow> ustr \<Rightarrow> exn + int option" where
  "normalize_cmd_text rt t =
     (let s = strip t in
      if isdigit rt s then Inr None
      else case re_match (CMD_RE rt) s of Some G \<Rightarrow> int_group rt G
      | None \<Rightarrow>
     (case re_match (SHORT_RE rt) s of Some G \<Rightarrow> int_group rt G
      | None \<Rightarrow>
     (case re_match (NATURAL_RE rt) s of Some G \<Rightarrow> int_group rt G
      | None \<Rightarrow>
     (if re_match (NEAR_MISS_RE rt) s \<noteq> None then Inr None else Inr None))))"

section \<open>Bot state and environment\<close>

text \<open>
  The state of a \<open>BreakBot\<close> with what it observes and changes outside itself: the
  clock read by \<open>time.time()\<close>, which every sleep advances, the \<open>data-bot-seen\<close>
  attribute of the feed items (the set of marked items) and a trace of what the bot did.
  A call of the browser page either returns or raises; an environment record gives the
  outcome of each call, and the choices of \<open>random.choice\<close>.
\<close>

datatype event =
    Backoff real
  | Typed ustr
  | Sent ustr
  | Warn_no_input
  | Warn_send_failed ustr
  | Dispatched nat "ustr option" ustr

record timer =
  timer_minutes :: int
  timer_end_text :: ustr

record bot =
  trigger_seen :: "ustr \<rightharpoonup> real"
  msg_seen :: "ustr \<rightharpoonup> real"
  cmd_guard :: "ustr \<rightharpoonup> real"
  cmd_text_guard :: "ustr \<rightharpoonup> real"
  minute_global_guard :: "int \<rightharpoonup> real"
  recent_sender :: "(ustr \<times> real) option"
  back_cooldown :: real
  last_send_ts :: real
  cooldown_until :: real
  running_timers :: "timer list"
  clock :: real
  seen_attr :: "nat set"
  trace :: "event list"

definition new_bot :: "real \<Rightarrow> nat set \<Rightarrow> bot" where
  \<comment> \<open>\<open>BreakBot.__init__\<close> at time \<open>t\<close>, the feed items carrying the marks \<open>M\<close>\<close>
  "new_bot t M = \<lparr>trigger_seen = Map.empty, msg_seen = Map.empty, cmd_guard = Map.empty,
     cmd_text_guard = Map.empty, minute_global_guard = Map.empty, recent_sender = None,
     back_cooldown = 0, last_send_ts = 0, cooldown_until = 0, running_timers = [],
     clock = t, seen_attr = M, trace = []\<rparr>"

definition get :: "('k \<rightharpoonup> real) \<Rightarrow> 'k \<Rightarrow> real" where
  \<comment> \<open>\<open>d.get(k, 0.0)\<close>\<close>
  "get m k = (case m k of None \<Rightarrow> 0 | Some v \<Rightarrow> v)"

definition sleep :: "real \<Rightarrow> bot \<Rightarrow> bot" where
  "sleep d s = s\<lparr>clock := clock s + max 0 d\<rparr>"

definition emit :: "event \<Rightarrow> bot \<Rightarrow> bot" where
  "emit e s = s\<lparr>trace := trace s @ [e]\<rparr>"

definition SENDER_MSG_TTL :: real where "SENDER_MSG_TTL = 8"
definition MSG_ONLY_TTL :: real where "MSG_ONLY_TTL = 15"
definition CMD_GUARD_TTL :: real where "CMD_GUARD_TTL = 15"
definition RECENT_NAME_SEC :: real where "RECENT_NAME_SEC = 30"
definition GLOBAL_MINUTE_GUARD :: real where "GLOBAL_MINUTE_GUARD = 10"
definition MIN_SEND_INTERVAL :: real where "MIN_SEND_INTERVAL = 18 / 10"
definition MAX_RETRY :: nat where "MAX_RETRY = 10"

section \<open>Send arbiter: \<open>type_and_send\<close>\<close>

datatype probe = Probe_raises | Hidden | Visible
datatype lookup = Lookup_raises | Missing | Found

record attempt =
  pre_toast :: probe
  scroll_ok :: bool
  click_ok :: bool
  fill_ok :: bool
  clear_ok :: bool
  type_ok :: bool
  press_ok :: bool
  post_toast :: probe

record send_env =
  input_box :: lookup
  attempts :: "nat \<Rightarrow> attempt"

datatype outcome = Failed | Limited | Done

definition back_off :: "real \<Rightarrow> bot \<Rightarrow> bot" where
  \<comment> \<open>\<open>self._cooldown_until = time.time() + backoff; await asyncio.sleep(backoff)\<close>\<close>
  "back_off b s = sleep b (emit (Backoff b) (s\<lparr>cooldown_until := clock s + b\<rparr>))"

definition next_backoff :: "real \<Rightarrow> real" where
  "next_backoff b = min (b * (16 / 10)) 6"

definition try_send :: "attempt \<Rightarrow> ustr \<Rightarrow> bot \<Rightarrow> outcome \<times> bot" where
  \<comment> \<open>the second \<open>try\<close> block of one iteration: clear the input, type, submit, look again\<close>
  "try_send a text s =
     (if \<not> scroll_ok a \<or> \<not> click_ok a then (Failed, s)
      else if \<not> fill_ok a \<and> \<not> clear_ok a then (Failed, s)
      else if \<not> type_ok a then (Failed, s)
      else if \<not> press_ok a then (Failed, s)
      else let s1 = sleep (12 / 100) (emit (Typed text) s) in
        (case post_toast a of
           Probe_raises \<Rightarrow> (Failed, s1)
         | Visible \<Rightarrow> (Limited, s1)
         | Hidden \<Rightarrow> (Done, sleep (5 / 100) (emit (Sent text) (s1\<lparr>last_send_ts := clock s1\<rparr>)))))"

function send_loop :: "send_env \<Rightarrow> ustr \<Rightarrow> nat \<Rightarrow> real \<Rightarrow> bot \<Rightarrow> bot" where
  "send_loop env text i b s =
     (if MAX_RETRY \<le> i then emit (Warn_send_failed text) s
      else if pre_toast (attempts env i) = Visible
        then send_loop env text (Suc i) (next_backoff b) (back_off b s)
      else (case try_send (attempts env i) text s of
              (Done, s1) \<Rightarrow> s1
            | (Limited, s1) \<Rightarrow> send_loop env text (Suc i) (next_backoff b) (back_off b s1)
            | (Failed, s1) \<Rightarrow> send_loop env text (Suc i) (next_backoff b) (back_off b s1)))"
  by pat_completeness auto
termination
  by (relation "measure (\<lambda>(env, text, i, b, s). MAX_RETRY - i)") auto

declare send_loop.simps [simp del]

definition type_and_send :: "send_env \<Rightarrow> ustr \<Rightarrow> bot \<Rightarrow> (exn + unit) \<times> bot" where
  "type_and_send env text s =
     (let s1 = (if clock s < cooldown_until s then sleep (cooldown_until s - clock s) s else s);
          gap = clock s1 - last_send_ts s1;
          s2 = (if gap < MIN_SEND_INTERVAL then sleep (MIN_SEND_INTERVAL - gap) s1 else s1)
      in case input_box env of
           Lookup_raises \<Rightarrow> (Inl PageError, s2)
         | Missing \<Rightarrow> (Inr (), emit Warn_no_input s2)
         | Found \<Rightarrow> (Inr (), send_loop env text 0 (8 / 10) s2))"

definition say :: "send_env \<Rightarrow> ustr \<Rightarrow> bot \<Rightarrow> (exn + unit) \<times> bot" where
  "say env text s = type_and_send env text s"

section \<open>Break timer manager: \<open>start_break\<close>\<close>

datatype piece = Txt ustr | M | Who

fun dec :: "nat \<Rightarrow> ustr" where
  "dec n = (if n < 10 then [48 + n] else dec (n div 10) @ [48 + n mod 10])"

declare dec.simps [simp del]

definition str_int :: "int \<Rightarrow> ustr" where
  \<comment> \<open>\<open>str(i)\<close> of an integer\<close>
  "str_int i = (if i < 0 then 45 # dec (nat (- i)) else dec (nat i))"

fun format :: "piece list \<Rightarrow> int \<Rightarrow> ustr \<Rightarrow> ustr" where
  "format [] m who = []"
| "format (Txt t # ps) m who = t @ format ps m who"
| "format (M # ps) m who = str_int m @ format ps m who"
| "format (Who # ps) m who = who @ format ps m who"

definition START_TPL :: "piece list list" where
  "START_TPL =
    [[Txt [35, 55092, 49885, 32], M, Txt [48516, 32, 49884, 51089, 32, 45, 32, 98, 121, 32], Who],
     [Txt [9201, 65039, 32], M, Txt [48516, 32, 49772, 50612, 50836, 33, 33, 32, 45, 32], Who],
     [Txt [55092, 49885, 32], M,
      Txt [48516, 32, 44032, 51592, 50500, 126, 32, 128588, 32, 45, 32], Who]]"

definition END_TPL :: "piece list list" where
  "END_TPL =
    [[Txt [9200, 55092, 49885, 32, 51333, 47308, 32, 45, 32], Who],
     [Txt [9200, 45149, 33, 32, 45796, 49884, 32, 44256, 33, 32, 8212, 32], Who],
     [Txt [9200, 55092, 49885, 32], M,
      Txt [48516, 32, 45149, 45228, 50612, 50836, 46, 32, 54028, 51060, 54021, 32, 128170], Who,
      Txt [9999, 65039]]]"

definition BACK_TPL :: "ustr list" where
  "BACK_TPL = [[45365], [45365, 33, 33], [48373, 44480, 32, 54869, 51064, 33, 32, 128075],
     [51060, 51228, 32, 44277, 48512, 32, 12593, 12593, 32, 128640]]"

definition choice :: "nat \<Rightarrow> 'a list \<Rightarrow> 'a" where
  \<comment> \<open>\<open>random.choice\<close> of a non-empty list, the random number given\<close>
  "choice r xs = xs ! (r mod length xs)"

record break_env =
  pick_start :: nat
  pick_end :: nat
  start_send :: send_env

datatype reply = Ok_true | Ok_false string

definition clamp :: "int \<Rightarrow> int" where
  "clamp minutes = max 1 (min minutes 180)"

definition guard_key :: "ustr \<Rightarrow> int \<Rightarrow> ustr" where
  \<comment> \<open>the f-string \<open>{who}::{minutes}\<close>\<close>
  "guard_key who m = who @ [58, 58] @ str_int m"

definition start_break :: "break_env \<Rightarrow> int \<Rightarrow> ustr \<Rightarrow> bot \<Rightarrow> (exn + reply) \<times> bot" where
  "start_break env minutes0 who s =
     (let minutes = clamp minutes0; now = clock s in
      if now - get (minute_global_guard s) minutes < GLOBAL_MINUTE_GUARD
      then (Inr (Ok_false ''minute-guard''), s)
      else let s1 = s\<lparr>minute_global_guard := (minute_global_guard s)(minutes \<mapsto> now)\<rparr>;
               gk = guard_key who minutes in
      if now - get (cmd_guard s1) gk < CMD_GUARD_TTL
      then (Inr (Ok_false ''user-minute-guard''), s1)
      else let s2 = s1\<lparr>cmd_guard := (cmd_guard s1)(gk \<mapsto> now)\<rparr>;
               start_text = format (choice (pick_start env) START_TPL) minutes who;
               end_text = format (choice (pick_end env) END_TPL) minutes who in
      case say (start_send env) start_text s2 of
        (Inl e, s3) \<Rightarrow> (Inl e, s3)
      | (Inr u, s3) \<Rightarrow>
          (Inr Ok_true,
           s3\<lparr>running_timers := running_timers s3 @
                 [\<lparr>timer_minutes = minutes, timer_end_text = end_text\<rparr>]\<rparr>))"

section \<open>Chat-item handler: \<open>handle_chat_item\<close>\<close>

fun contains :: "ustr \<Rightarrow> ustr \<Rightarrow> bool" where
  \<comment> \<open>\<open>sub in s\<close>\<close>
  "contains sub [] = (sub = [])"
| "contains sub (c # cs) = (take (length sub) (c # cs) = sub \<or> contains sub cs)"

definition startswith :: "ustr \<Rightarrow> ustr \<Rightarrow> bool" where
  "startswith s p \<longleftrightarrow> take (length p) s = p"

definition truthy :: "ustr option \<Rightarrow> bool" where
  \<comment> \<open>an optional string used as a condition: neither \<open>None\<close> nor empty\<close>
  "truthy x = (case x of None \<Rightarrow> False | Some s \<Rightarrow> s \<noteq> [])"

definition BACK_RE :: re where
  \<comment> \<open>\<open>BOK GWI(HAET|HAM|YO|WAN RYO)?\<close>\<close>
  "BACK_RE = seq [Chr (lit 48373), Chr (lit 44480),
     Alt (Grp 1 (Alt (Chr (lit 54664)) (Alt (Chr (lit 54632)) (Alt (Chr (lit 50836))
            (Seq (Chr (lit 50756)) (Chr (lit 47308))))))) Eps]"

definition START_NOISE_RE :: "runtime \<Rightarrow> re" where
  \<comment> \<open>the five alternatives, in the order of the source\<close>
  "START_NOISE_RE rt =
     Alt (seq [opt (lit 35), star is_space, Chr (lit hyu), Chr (lit sik), star is_space,
               plus (is_decimal rt), star is_space, Chr (lit bun), star is_space,
               Chr (lit 49884), Chr (lit 51089), star is_space, Chr (lit 45), star is_space,
               Chr (lit_i 98), Chr (lit_i 121)])
    (Alt (seq [plus (is_decimal rt), star is_space, Chr (lit bun), star is_space,
               Chr (lit swi), Chr (lit 50612), Chr (lit 50836)])
    (Alt (word [44032, 51592, 50500])
    (Alt (seq [Chr (lit 52376), Chr (lit 47100), star is_space, Chr (lit 51077), Chr (lit 47141),
               Alt (Seq (Chr (lit 54616)) (Chr (lit 47732))) (Chr (lit 54644))])
         (seq [Chr (lit 51077), Chr (lit 47141), Chr (lit 54616), Chr (lit 47732), star is_space,
               Chr (lit 53440), Chr (lit 51060), Chr (lit 47672)]))))"

function collapse_ws :: "ustr \<Rightarrow> ustr" where
  \<comment> \<open>\<open>re.sub(r'\s+', ' ', x)\<close>\<close>
  "collapse_ws [] = []"
| "collapse_ws (c # cs) =
     (if is_space c then 32 # collapse_ws (dropWhile is_space cs) else c # collapse_ws cs)"
  by pat_completeness auto
termination
  by (relation "measure length") (auto simp: less_Suc_eq_le length_dropWhile_le)

definition text_key :: "runtime \<Rightarrow> ustr \<Rightarrow> ustr" where
  "text_key rt t = collapse_ws (str_lower rt t)"

definition recent_name :: "bot \<Rightarrow> ustr option" where
  \<comment> \<open>the cached sender, if one was seen within \<open>RECENT_NAME_SEC\<close>\<close>
  "recent_name s =
     (case recent_sender s of None \<Rightarrow> None
      | Some (n, ts) \<Rightarrow> if clock s - ts \<le> RECENT_NAME_SEC then Some n else None)"

definition nugunga :: ustr where
  \<comment> \<open>the default requester name\<close>
  "nugunga = [45572, 44400, 44032]"

record handler_env =
  pick_back :: nat
  back_send :: send_env
  h_break :: break_env

definition echo_or_noise :: "runtime \<Rightarrow> ustr \<Rightarrow> ustr option \<Rightarrow> bool" where
  \<comment> \<open>the four tests that make the handler return at once\<close>
  "echo_or_noise rt t sender \<longleftrightarrow>
     (truthy sender \<and> strip (the sender) = strip (BOT_NAME rt)) \<or>
     contains [49884, 51089, 32, 45, 32, 98, 121] t \<or> contains [51333, 47308, 32, 45, 32] t \<or>
     re_search (START_NOISE_RE rt) t \<or> isdigit rt t"

definition handle_chat_item ::
  "runtime \<Rightarrow> handler_env \<Rightarrow> ustr \<Rightarrow> ustr option \<Rightarrow> bot \<Rightarrow> (exn + unit) \<times> bot" where
  "handle_chat_item rt env text0 sender s =
     (let t = strip text0 in
      if echo_or_noise rt t sender then (Inr (), s)
      else if re_search BACK_RE t then
        (if back_cooldown s \<le> clock s
         then say (back_send env) (choice (pick_back env) BACK_TPL)
                (s\<lparr>back_cooldown := clock s + 2\<rparr>)
         else (Inr (), s))
      else if clock s - get (cmd_text_guard s) (text_key rt t) < 10 then (Inr (), s)
      else let s1 = s\<lparr>cmd_text_guard := (cmd_text_guard s)(text_key rt t \<mapsto> clock s)\<rparr> in
        (case normalize_cmd_text rt t of
           Inl e \<Rightarrow> (Inl e, s1)
         | Inr None \<Rightarrow> (Inr (), s1)
         | Inr (Some m) \<Rightarrow>
             (let minutes = clamp m;
                  s2 = (if sender = None then sleep (25 / 100) s1 else s1);
                  sender1 = (if sender = None then recent_name s2 else sender);
                  who = (if truthy sender1 then the sender1
                         else case recent_name s2 of Some n \<Rightarrow> n | None \<Rightarrow> nugunga)
              in case start_break (h_break env) minutes who s2 of
                   (Inl e, s3) \<Rightarrow> (Inl e, s3)
                 | (Inr r, s3) \<Rightarrow> (Inr (), s3))))"

section \<open>Feed scanner: \<open>scan_loop\<close> and \<open>preload_mark_seen\<close>\<close>

text \<open>
  A feed item as one poll finds it: its identity, whether reading its attribute returns,
  its inner text (\<open>None\<close> when the read raises), whether setting the attribute returns, what
  the elements before it show, and the environment of the handler call made for it. The
  attribute \<open>data-bot-seen\<close> is \<open>1\<close> on the items of \<open>seen_attr\<close>; only the bot sets it.
\<close>

datatype neighbour = Handle_raises | Null_handle | Text_raises | Text ustr

record bubble =
  bid :: nat
  attr_ok :: bool
  inner :: "ustr option"
  mark_ok :: bool
  neighbours :: "nat \<Rightarrow> neighbour"
  handling :: handler_env

record poll =
  query_ok :: bool
  bubbles :: "bubble list"

definition name_like :: "ustr \<Rightarrow> bool" where
  \<comment> \<open>at most 32 characters, no leading \<open>#\<close>, neither the unit word nor the keyword\<close>
  "name_like p \<longleftrightarrow>
     length p \<le> 32 \<and> \<not> startswith p [35] \<and> \<not> contains [bun] p \<and> \<not> contains [hyu, sik] p"

fun near :: "(nat \<Rightarrow> neighbour) \<Rightarrow> nat \<Rightarrow> nat \<Rightarrow> ustr option" where
  "near nb i 0 = None"
| "near nb i (Suc n) =
     (case nb i of
        Handle_raises \<Rightarrow> None
      | Null_handle \<Rightarrow> None
      | Text_raises \<Rightarrow> near nb (Suc i) n
      | Text raw \<Rightarrow>
          (let txt = strip raw in
           if txt \<noteq> [] \<and> name_like txt then Some txt else near nb (Suc i) n))"

definition find_sender_near_bubble :: "(nat \<Rightarrow> neighbour) \<Rightarrow> ustr option" where
  "find_sender_near_bubble nb = near nb 0 4"

fun split_on :: "cp \<Rightarrow> ustr \<Rightarrow> ustr list" where
  \<comment> \<open>\<open>s.split(sep)\<close> for a separator of one character\<close>
  "split_on c [] = [[]]"
| "split_on c (x # xs) =
     (if x = c then [] # split_on c xs
      else case split_on c xs of [] \<Rightarrow> [[x]] | y # ys \<Rightarrow> (x # y) # ys)"

fun join_lines :: "ustr list \<Rightarrow> ustr" where
  \<comment> \<open>\<open>"\n".join(ps)\<close>\<close>
  "join_lines [] = []"
| "join_lines [p] = p"
| "join_lines (p # q # ps) = p @ [10] @ join_lines (q # ps)"

definition unknown :: ustr where
  "unknown = [117, 110, 107, 110, 111, 119, 110]"

definition split_sender :: "(nat \<Rightarrow> neighbour) \<Rightarrow> ustr \<Rightarrow> ustr option \<times> ustr" where
  \<comment> \<open>sender and message of a non-empty content\<close>
  "split_sender nb content =
     (let parts = filter (\<lambda>p. p \<noteq> []) (map strip (split_on 10 content));
          (sender, msg_text) =
             (if 2 \<le> length parts \<and> name_like (hd parts)
              then (Some (hd parts), join_lines (tl parts)) else (None, content))
      in (if truthy sender then sender else find_sender_near_bubble nb, msg_text))"

definition sender_key :: "ustr option \<Rightarrow> ustr \<Rightarrow> ustr" where
  "sender_key sender msg_text =
     strip (if truthy sender then the sender else unknown) @ [58, 58] @ strip msg_text"

definition msg_key :: "runtime \<Rightarrow> ustr \<Rightarrow> ustr" where
  "msg_key rt msg_text = str_lower rt (strip msg_text)"

definition scan_item :: "runtime \<Rightarrow> bubble \<Rightarrow> bot \<Rightarrow> bot" where
  "scan_item rt b s =
     (if \<not> attr_ok b then s
      else if bid b \<in> seen_attr s then s
      else case inner b of
        None \<Rightarrow> s
      | Some raw \<Rightarrow>
          (let content = strip raw in
           if \<not> mark_ok b then s
           else let s1 = s\<lparr>seen_attr := insert (bid b) (seen_attr s)\<rparr> in
           if content = [] then s1
           else let (sender, msg_text) = split_sender (neighbours b) content;
                    now = clock s1;
                    s2 = (if truthy sender then s1\<lparr>recent_sender := Some (the sender, now)\<rparr>
                          else s1);
                    k = sender_key sender msg_text;
                    k2 = msg_key rt msg_text
                in if now - get (trigger_seen s2) k < SENDER_MSG_TTL then s2
                   else if now - get (msg_seen s2) k2 < MSG_ONLY_TTL then s2
                   else let s3 = s2\<lparr>trigger_seen := (trigger_seen s2)(k \<mapsto> now),
                                     msg_seen := (msg_seen s2)(k2 \<mapsto> now)\<rparr>;
                            s4 = emit (Dispatched (bid b) sender msg_text) s3
                        in snd (handle_chat_item rt (handling b) msg_text sender s4)))"

definition scan_cycle :: "runtime \<Rightarrow> poll \<Rightarrow> bot \<Rightarrow> bot" where
  \<comment> \<open>one turn of the \<open>while True\<close> loop\<close>
  "scan_cycle rt p s = sleep 1 (if query_ok p then fold (scan_item rt) (bubbles p) s else s)"

definition scan_cycles :: "runtime \<Rightarrow> poll list \<Rightarrow> bot \<Rightarrow> bot" where
  \<comment> \<open>the first turns of the loop, one poll each\<close>
  "scan_cycles rt ps s = fold (scan_cycle rt) ps s"

definition preload_item :: "bubble \<Rightarrow> nat \<times> bot \<Rightarrow> nat \<times> bot" where
  "preload_item b = (\<lambda>(cnt, s).
     if mark_ok b then (Suc cnt, s\<lparr>seen_attr := insert (bid b) (seen_attr s)\<rparr>) else (cnt, s))"

definition preload_mark_seen :: "poll \<Rightarrow> bot \<Rightarrow> (exn + nat) \<times> bot" where
  \<comment> \<open>returns the count it prints\<close>
  "preload_mark_seen p s =
     (if \<not> query_ok p then (Inl PageError, s)
      else let (cnt, s1) = fold preload_item (bubbles p) (0, s) in (Inr cnt, s1))"

definition GREETING :: ustr where
  "GREETING = [50504, 45397, 54616, 49464, 50836, 32, 49, 51, 44592, 32, 52828, 44396, 46308, 33,
     33, 32, 50696, 41, 32, 35, 55092, 49885, 32, 79, 79, 48516, 32, 47, 32, 50696, 41, 32, 35, 79,
     79, 32, 47, 32, 50696, 41, 32, 79, 79, 48516, 45, 55092, 49885, 32, 47, 32, 50696, 41, 32, 79,
     79, 48516, 32, 55092, 49885, 54616, 44192, 49845, 45768, 45796, 32, 8592, 32, 51060, 47088, 32,
     49885, 51004, 47196, 32, 48372, 45236, 51452, 49884, 47732, 32, 53440, 51060, 47672, 44032, 32,
     49884, 51089, 46076, 50836, 46]"

definition on_startup :: "poll \<Rightarrow> send_env \<Rightarrow> real \<Rightarrow> nat set \<Rightarrow> (exn + unit) \<times> bot" where
  \<comment> \<open>the bot is created, the items on screen are marked, the greeting is sent; the scan
      loop starts only when this returns\<close>
  "on_startup p env t marked =
     (case preload_mark_seen p (new_bot t marked) of
        (Inl e, s) \<Rightarrow> (Inl e, s)
      | (Inr cnt, s) \<Rightarrow> say env GREETING s)"

definition dispatches :: "nat \<Rightarrow> bot \<Rightarrow> nat" where
  \<comment> \<open>how many times the item \<open>i\<close> was given to the handler\<close>
  "dispatches i s =
     length (filter (\<lambda>e. case e of Dispatched j _ _ \<Rightarrow> j = i | _ \<Rightarrow> False) (trace s))"

section \<open>Frames and sample environments\<close>

definition same_tables :: "bot \<Rightarrow> bot \<Rightarrow> bool" where
  "same_tables s s' \<longleftrightarrow>
     trigger_seen s' = trigger_seen s \<and> msg_seen s' = msg_seen s \<and> cmd_guard s' = cmd_guard s \<and>
     cmd_text_guard s' = cmd_text_guard s \<and> minute_global_guard s' = minute_global_guard s \<and>
     recent_sender s' = recent_sender s \<and> back_cooldown s' = back_cooldown s \<and>
     running_timers s' = running_timers s \<and> seen_attr s' = seen_attr s"

definition rt0 :: runtime where
  "rt0 = \<lparr>nd_value = (\<lambda>_. None), other_digit = (\<lambda>_. False), other_alnum = (\<lambda>_. False),
     str_lower = map (\<lambda>c. if 65 \<le> c \<and> c \<le> 90 then c + 32 else c), int_max_str_digits = 4300,
     BOT_NAME = [55092, 49885, 32, 51312, 44368]\<rparr>"

definition attempt_ok :: attempt where
  "attempt_ok = \<lparr>pre_toast = Hidden, scroll_ok = True, click_ok = True, fill_ok = True,
     clear_ok = True, type_ok = True, press_ok = True, post_toast = Hidden\<rparr>"

definition env_ok :: send_env where
  "env_ok = \<lparr>input_box = Found, attempts = (\<lambda>_. attempt_ok)\<rparr>"

definition benv :: break_env where
  "benv = \<lparr>pick_start = 0, pick_end = 0, start_send = env_ok\<rparr>"

definition cheolsu :: ustr where "cheolsu = [52384, 49688]"
definition yeonghui :: ustr where "yeonghui = [50689, 55148]"
definition minsu :: ustr where "minsu = [48124, 49688]"

definition c3_before :: bot where
  "c3_before = (snd (start_break benv 10 cheolsu (new_bot 1000 {})))\<lparr>clock := 1012\<rparr>"

definition c1_after_first :: bot where
  "c1_after_first = (snd (start_break benv 10 cheolsu (new_bot 1000 {})))\<lparr>clock := 1005\<rparr>"

definition c1_after_second :: bot where
  "c1_after_second = (snd (start_break benv 10 yeonghui c1_after_first))\<lparr>clock := 1012\<rparr>"

definition guards_recorded :: "int \<Rightarrow> ustr \<Rightarrow> bot \<Rightarrow> bot" where
  "guards_recorded m who s =
     s\<lparr>minute_global_guard := (minute_global_guard s)(clamp m \<mapsto> clock s),
       cmd_guard := (cmd_guard s)(guard_key who (clamp m) \<mapsto> clock s)\<rparr>"


subsection \<open>Retries of the send arbiter\<close>




fun backoffs :: "event list \<Rightarrow> real list" where
  "backoffs [] = []"
| "backoffs (Backoff b # es) = b # backoffs es"
| "backoffs (e # es) = backoffs es"






section \<open>Auxiliary lemmas\<close>

lemma sleep_fields [simp]:
  "trigger_seen (sleep d s) = trigger_seen s" "msg_seen (sleep d s) = msg_seen s"
  "cmd_guard (sleep d s) = cmd_guard s" "cmd_text_guard (sleep d s) = cmd_text_guard s"
  "minute_global_guard (sleep d s) = minute_global_guard s"
  "recent_sender (sleep d s) = recent_sender s" "back_cooldown (sleep d s) = back_cooldown s"
  "running_timers (sleep d s) = running_timers s" "seen_attr (sleep d s) = seen_attr s"
  "trace (sleep d s) = trace s" "last_send_ts (sleep d s) = last_send_ts s"
  "cooldown_until (sleep d s) = cooldown_until s" "clock (sleep d s) = clock s + max 0 d"
  by (simp_all add: sleep_def)

lemma emit_fields [simp]:
  "trigger_seen (emit e s) = trigger_seen s" "msg_seen (emit e s) = msg_seen s"
  "cmd_guard (emit e s) = cmd_guard s" "cmd_text_guard (emit e s) = cmd_text_guard s"
  "minute_global_guard (emit e s) = minute_global_guard s"
  "recent_sender (emit e s) = recent_sender s" "back_cooldown (emit e s) = back_cooldown s"
  "running_timers (emit e s) = running_timers s" "seen_attr (emit e s) = seen_attr s"
  "trace (emit e s) = trace s @ [e]" "last_send_ts (emit e s) = last_send_ts s"
  "cooldown_until (emit e s) = cooldown_until s" "clock (emit e s) = clock s"
  by (simp_all add: emit_def)

lemma same_tables_refl [simp]: "same_tables s s"
  by (simp add: same_tables_def)

lemma same_tables_trans: "same_tables s s1 \<Longrightarrow> same_tables s1 s2 \<Longrightarrow> same_tables s s2"
  by (simp add: same_tables_def)

lemma back_off_tables: "same_tables s (back_off b s)"
  by (simp add: same_tables_def back_off_def)

lemma try_send_tables: "try_send a text s = (r, s') \<Longrightarrow> same_tables s s'"
  by (auto simp: try_send_def same_tables_def Let_def split: if_splits probe.splits)

lemma send_loop_tables: "same_tables s (send_loop env tx i b s)"
proof (induction env tx i b s rule: send_loop.induct)
  case (1 env tx i b s)
  show ?case
  proof (cases "MAX_RETRY \<le> i")
    case True
    then show ?thesis by (simp add: send_loop.simps same_tables_def)
  next
    case False
    note nle = False
    show ?thesis
    proof (cases "pre_toast (attempts env i) = Visible")
      case True
      from "1.IH"(1) [OF nle True] back_off_tables [of s b]
      show ?thesis using nle True
        by (subst send_loop.simps) (auto intro: same_tables_trans)
    next
      case False
      obtain r s1 where ts: "try_send (attempts env i) tx s = (r, s1)"
        by (cases "try_send (attempts env i) tx s")
      have t1: "same_tables s s1" using ts by (rule try_send_tables)
      have t2: "same_tables s1 (back_off b s1)" by (rule back_off_tables)
      show ?thesis
      proof (cases r)
        case Done
        then show ?thesis using nle False ts t1 by (subst send_loop.simps) simp
      next
        case Limited
        from "1.IH"(3) [OF nle False ts [symmetric] Limited]
        show ?thesis using nle False ts Limited t1 t2
          by (subst send_loop.simps) (auto intro: same_tables_trans)
      next
        case Failed
        from "1.IH"(2) [OF nle False ts [symmetric] Failed]
        show ?thesis using nle False ts Failed t1 t2
          by (subst send_loop.simps) (auto intro: same_tables_trans)
      qed
    qed
  qed
qed

lemma send_loop_fields [simp]:
  "trigger_seen (send_loop env tx i b s) = trigger_seen s"
  "msg_seen (send_loop env tx i b s) = msg_seen s"
  "cmd_guard (send_loop env tx i b s) = cmd_guard s"
  "cmd_text_guard (send_loop env tx i b s) = cmd_text_guard s"
  "minute_global_guard (send_loop env tx i b s) = minute_global_guard s"
  "recent_sender (send_loop env tx i b s) = recent_sender s"
  "back_cooldown (send_loop env tx i b s) = back_cooldown s"
  "running_timers (send_loop env tx i b s) = running_timers s"
  "seen_attr (send_loop env tx i b s) = seen_attr s"
  using send_loop_tables [of s env tx i b] by (simp_all add: same_tables_def)

lemma type_and_send_tables: "type_and_send env tx s = (r, s') \<Longrightarrow> same_tables s s'"
  by (auto simp: type_and_send_def Let_def same_tables_def split: lookup.splits if_splits)

lemma say_tables: "say env tx s = (r, s') \<Longrightarrow> same_tables s s'"
  unfolding say_def by (rule type_and_send_tables)

lemma send_loop_stop: "MAX_RETRY \<le> i \<Longrightarrow> send_loop env tx i b s = emit (Warn_send_failed tx) s"
  by (subst send_loop.simps) simp

lemma send_loop_visible:
  "i < MAX_RETRY \<Longrightarrow> pre_toast (attempts env i) = Visible \<Longrightarrow>
   send_loop env tx i b s = send_loop env tx (Suc i) (next_backoff b) (back_off b s)"
  by (subst send_loop.simps) simp

lemma send_loop_done:
  "i < MAX_RETRY \<Longrightarrow> pre_toast (attempts env i) \<noteq> Visible \<Longrightarrow>
   fst (try_send (attempts env i) tx s) = Done \<Longrightarrow>
   send_loop env tx i b s = snd (try_send (attempts env i) tx s)"
  by (subst send_loop.simps) (cases "try_send (attempts env i) tx s", simp)

lemma send_loop_retry:
  "i < MAX_RETRY \<Longrightarrow> pre_toast (attempts env i) \<noteq> Visible \<Longrightarrow>
   fst (try_send (attempts env i) tx s) \<noteq> Done \<Longrightarrow>
   send_loop env tx i b s =
     send_loop env tx (Suc i) (next_backoff b) (back_off b (snd (try_send (attempts env i) tx s)))"
  by (subst send_loop.simps) (cases "try_send (attempts env i) tx s", simp split: outcome.splits)

lemmas send_loop_eval = send_loop_stop send_loop_visible send_loop_done send_loop_retry



lemmas run_defs = start_break_def say_def type_and_send_def send_loop_eval try_send_def
  back_off_def next_backoff_def sleep_def emit_def get_def clamp_def guard_key_def str_int_def
  dec.simps choice_def START_TPL_def END_TPL_def new_bot_def Let_def
  GLOBAL_MINUTE_GUARD_def CMD_GUARD_TTL_def MIN_SEND_INTERVAL_def MAX_RETRY_def
  benv_def env_ok_def attempt_ok_def cheolsu_def yeonghui_def minsu_def

lemma say_fst: "fst (say env tx s) = (if input_box env = Lookup_raises then Inl PageError else Inr ())"
  by (simp add: say_def type_and_send_def Let_def split: lookup.splits)

lemma say_fields:
  "minute_global_guard (snd (say env tx s)) = minute_global_guard s"
  "cmd_guard (snd (say env tx s)) = cmd_guard s"
  "running_timers (snd (say env tx s)) = running_timers s"
  using say_tables [of env tx s "fst (say env tx s)" "snd (say env tx s)"]
  by (simp_all add: same_tables_def)

lemma start_break_global_hit:
  "clock s - get (minute_global_guard s) (clamp m) < GLOBAL_MINUTE_GUARD \<Longrightarrow>
   start_break env m who s = (Inr (Ok_false ''minute-guard''), s)"
  by (simp add: start_break_def Let_def)

lemma start_break_user_hit:
  "\<not> clock s - get (minute_global_guard s) (clamp m) < GLOBAL_MINUTE_GUARD \<Longrightarrow>
   clock s - get (cmd_guard s) (guard_key who (clamp m)) < CMD_GUARD_TTL \<Longrightarrow>
   start_break env m who s =
     (Inr (Ok_false ''user-minute-guard''),
      s\<lparr>minute_global_guard := (minute_global_guard s)(clamp m \<mapsto> clock s)\<rparr>)"
  by (simp add: start_break_def Let_def)

lemma start_break_pass:
  assumes "\<not> clock s - get (minute_global_guard s) (clamp m) < GLOBAL_MINUTE_GUARD"
    and "\<not> clock s - get (cmd_guard s) (guard_key who (clamp m)) < CMD_GUARD_TTL"
  shows "start_break env m who s =
     (case say (start_send env) (format (choice (pick_start env) START_TPL) (clamp m) who)
             (guards_recorded m who s) of
        (Inl e, s3) \<Rightarrow> (Inl e, s3)
      | (Inr u, s3) \<Rightarrow>
          (Inr Ok_true,
           s3\<lparr>running_timers := running_timers s3 @
                 [\<lparr>timer_minutes = clamp m,
                   timer_end_text = format (choice (pick_end env) END_TPL) (clamp m) who\<rparr>]\<rparr>))"
  using assms by (simp add: start_break_def Let_def guards_recorded_def)

lemma start_break_pass_tables:
  assumes "\<not> clock s - get (minute_global_guard s) (clamp m) < GLOBAL_MINUTE_GUARD"
    and "\<not> clock s - get (cmd_guard s) (guard_key who (clamp m)) < CMD_GUARD_TTL"
  shows "minute_global_guard (snd (start_break env m who s)) =
           (minute_global_guard s)(clamp m \<mapsto> clock s)"
    and "cmd_guard (snd (start_break env m who s)) =
           (cmd_guard s)(guard_key who (clamp m) \<mapsto> clock s)"
proof -
  let ?tx = "format (choice (pick_start env) START_TPL) (clamp m) who"
  let ?s2 = "guards_recorded m who s"
  obtain r s3 where sy: "say (start_send env) ?tx ?s2 = (r, s3)"
    by (cases "say (start_send env) ?tx ?s2")
  have f: "minute_global_guard s3 = minute_global_guard ?s2" "cmd_guard s3 = cmd_guard ?s2"
    using say_fields [of "start_send env" ?tx ?s2] sy by simp_all
  show "minute_global_guard (snd (start_break env m who s)) =
           (minute_global_guard s)(clamp m \<mapsto> clock s)"
    using f sy by (cases r) (simp_all add: start_break_pass [OF assms] guards_recorded_def)
  show "cmd_guard (snd (start_break env m who s)) =
           (cmd_guard s)(guard_key who (clamp m) \<mapsto> clock s)"
    using f sy by (cases r) (simp_all add: start_break_pass [OF assms] guards_recorded_def)
qed

lemma first_call_state:
  "snd (start_break benv 10 cheolsu (new_bot 1000 {})) =
     (new_bot 1000 {})\<lparr>minute_global_guard := [10 \<mapsto> 1000], 
        cmd_guard := [[52384, 49688, 58, 58, 49, 48] \<mapsto> 1000],
        last_send_ts := 100012 / 100, clock := 100017 / 100,
        trace := [Typed [35, 55092, 49885, 32, 49, 48, 48516, 32, 49884, 51089, 32, 45, 32, 98, 121, 32, 52384, 49688],
                  Sent [35, 55092, 49885, 32, 49, 48, 48516, 32, 49884, 51089, 32, 45, 32, 98, 121, 32, 52384, 49688]],
        running_timers := [\<lparr>timer_minutes = 10, timer_end_text = [9200, 55092, 49885, 32, 51333, 47308, 32, 45, 32, 52384, 49688]\<rparr>]\<rparr>"
  by (simp add: run_defs)

lemma start_break_accepted:
  assumes ok: "fst (start_break env m who s) = Inr Ok_true"
  shows "running_timers (snd (start_break env m who s)) = running_timers s @
           [\<lparr>timer_minutes = clamp m,
             timer_end_text = format (choice (pick_end env) END_TPL) (clamp m) who\<rparr>]"
    and "minute_global_guard (snd (start_break env m who s)) (clamp m) = Some (clock s)"
proof -
  have g: "\<not> clock s - get (minute_global_guard s) (clamp m) < GLOBAL_MINUTE_GUARD"
    using ok start_break_global_hit [of s m env who] by auto
  have u: "\<not> clock s - get (cmd_guard s) (guard_key who (clamp m)) < CMD_GUARD_TTL"
    using ok g start_break_user_hit [of s m who env] by auto
  let ?tx = "format (choice (pick_start env) START_TPL) (clamp m) who"
  let ?s2 = "guards_recorded m who s"
  obtain r s3 where sy: "say (start_send env) ?tx ?s2 = (r, s3)"
    by (cases "say (start_send env) ?tx ?s2")
  have f: "running_timers s3 = running_timers s"
    using say_fields(3) [of "start_send env" ?tx ?s2] sy by (simp add: guards_recorded_def)
  show "running_timers (snd (start_break env m who s)) = running_timers s @
           [\<lparr>timer_minutes = clamp m,
             timer_end_text = format (choice (pick_end env) END_TPL) (clamp m) who\<rparr>]"
    using ok f sy by (cases r) (simp_all add: start_break_pass [OF g u])
  show "minute_global_guard (snd (start_break env m who s)) (clamp m) = Some (clock s)"
    using start_break_pass_tables(1) [OF g u, of env] by simp
qed

lemma guard_key_cheolsu_10: "guard_key cheolsu (clamp 10) = [52384, 49688, 58, 58, 49, 48]"
  by (simp add: guard_key_def clamp_def str_int_def dec.simps cheolsu_def)

lemma backoffs_append [simp]: "backoffs (xs @ ys) = backoffs xs @ backoffs ys"
  by (induction xs rule: backoffs.induct) simp_all















section \<open>The claims\<close>



text \<open>
  C3 (as amended). \<open>start_break\<close> consults the global-duration guard first and records its
  timestamp as soon as that check has passed, before the requester+duration guard is
  consulted: a call refused by the global guard changes nothing; a call refused by the
  requester+duration guard returns \<open>user-minute-guard\<close>, leaves the requester+duration
  table unchanged and has recorded the time in the global table; a call that passes both
  has recorded the time in both tables.
\<close>

theorem start_break_records_each_guard_as_passed:
  "(clock s - get (minute_global_guard s) (clamp m) < GLOBAL_MINUTE_GUARD \<longrightarrow>
      start_break env m who s = (Inr (Ok_false ''minute-guard''), s)) \<and>
   (\<not> clock s - get (minute_global_guard s) (clamp m) < GLOBAL_MINUTE_GUARD \<and>
    clock s - get (cmd_guard s) (guard_key who (clamp m)) < CMD_GUARD_TTL \<longrightarrow>
      start_break env m who s =
        (Inr (Ok_false ''user-minute-guard''),
         s\<lparr>minute_global_guard := (minute_global_guard s)(clamp m \<mapsto> clock s)\<rparr>)) \<and>
   (\<not> clock s - get (minute_global_guard s) (clamp m) < GLOBAL_MINUTE_GUARD \<and>
    \<not> clock s - get (cmd_guard s) (guard_key who (clamp m)) < CMD_GUARD_TTL \<longrightarrow>
      minute_global_guard (snd (start_break env m who s)) =
        (minute_global_guard s)(clamp m \<mapsto> clock s) \<and>
      cmd_guard (snd (start_break env m who s)) =
        (cmd_guard s)(guard_key who (clamp m) \<mapsto> clock s))"
  using start_break_global_hit [of s m env who] start_break_user_hit [of s m who env]
    start_break_pass_tables [of s m who env]
  by blast

theorem start_break_records_each_guard_as_passed_witness:
  "start_break benv 10 yeonghui c1_after_first = (Inr (Ok_false ''minute-guard''), c1_after_first) \<and>
   start_break benv 10 cheolsu c3_before =
     (Inr (Ok_false ''user-minute-guard''),
      c3_before\<lparr>minute_global_guard := (minute_global_guard c3_before)(clamp 10 \<mapsto> clock c3_before)\<rparr>) \<and>
   minute_global_guard (snd (start_break benv 10 cheolsu (new_bot 1000 {}))) =
     (minute_global_guard (new_bot 1000 {}))(clamp 10 \<mapsto> clock (new_bot 1000 {})) \<and>
   cmd_guard (snd (start_break benv 10 cheolsu (new_bot 1000 {}))) =
     (cmd_guard (new_bot 1000 {}))(guard_key cheolsu (clamp 10) \<mapsto> clock (new_bot 1000 {}))"
proof -
  have c10: "clamp 10 = 10" by (simp add: clamp_def)
  have g1: "clock c1_after_first - get (minute_global_guard c1_after_first) (clamp 10)
              < GLOBAL_MINUTE_GUARD"
    by (simp add: c10 c1_after_first_def first_call_state get_def GLOBAL_MINUTE_GUARD_def)
  have g2: "\<not> clock c3_before - get (minute_global_guard c3_before) (clamp 10)
              < GLOBAL_MINUTE_GUARD"
    by (simp add: c10 c3_before_def first_call_state get_def GLOBAL_MINUTE_GUARD_def)
  have u2: "clock c3_before - get (cmd_guard c3_before) (guard_key cheolsu (clamp 10))
              < CMD_GUARD_TTL"
    by (simp add: guard_key_cheolsu_10 c3_before_def first_call_state get_def CMD_GUARD_TTL_def)
  have g3: "\<not> clock (new_bot 1000 {}) - get (minute_global_guard (new_bot 1000 {})) (clamp 10)
              < GLOBAL_MINUTE_GUARD"
    by (simp add: new_bot_def get_def GLOBAL_MINUTE_GUARD_def)
  have u3: "\<not> clock (new_bot 1000 {}) -
              get (cmd_guard (new_bot 1000 {})) (guard_key cheolsu (clamp 10)) < CMD_GUARD_TTL"
    by (simp add: new_bot_def get_def CMD_GUARD_TTL_def)
  from start_break_records_each_guard_as_passed [of c1_after_first 10 benv yeonghui] g1
  have r1: "start_break benv 10 yeonghui c1_after_first =
              (Inr (Ok_false ''minute-guard''), c1_after_first)"
    by blast
  from start_break_records_each_guard_as_passed [of c3_before 10 benv cheolsu] g2 u2
  have r2: "start_break benv 10 cheolsu c3_before =
     (Inr (Ok_false ''user-minute-guard''),
      c3_before\<lparr>minute_global_guard := (minute_global_guard c3_before)(clamp 10 \<mapsto> clock c3_before)\<rparr>)"
    by blast
  from start_break_records_each_guard_as_passed [of "new_bot 1000 {}" 10 benv cheolsu] g3 u3
  have r3: "minute_global_guard (snd (start_break benv 10 cheolsu (new_bot 1000 {}))) =
     (minute_global_guard (new_bot 1000 {}))(clamp 10 \<mapsto> clock (new_bot 1000 {})) \<and>
   cmd_guard (snd (start_break benv 10 cheolsu (new_bot 1000 {}))) =
     (cmd_guard (new_bot 1000 {}))(guard_key cheolsu (clamp 10) \<mapsto> clock (new_bot 1000 {}))"
    by blast
  from r1 r2 r3 show ?thesis by blast
qed

text \<open>
  C3 as stated fails: a call refused by the requester+duration guard has already changed
  the global-duration table (same requester and duration at 1000 and again at 1012).
\<close>

theorem user_guard_refusal_records_global_guard:
  "fst (start_break benv 10 cheolsu c3_before) = Inr (Ok_false ''user-minute-guard'') \<and>
   minute_global_guard c3_before 10 = Some 1000 \<and>
   minute_global_guard (snd (start_break benv 10 cheolsu c3_before)) 10 = Some 1012"
  by (simp add: c3_before_def first_call_state) (simp add: run_defs)


text \<open>
  C1 (as amended). Two calls of \<open>start_break\<close> with the same clamped duration, the second
  less than 10 seconds after the first, whatever the requesters: when no guard refuses the
  first call and looking up the input control raises nothing, the first call returns
  success; and whenever the first call returns success it has started a timer, and the
  second call returns the failure \<open>minute-guard\<close> and changes nothing (no timer).
\<close>

theorem second_break_within_window_refused:
  "(\<not> clock s - get (minute_global_guard s) (clamp m1) < GLOBAL_MINUTE_GUARD \<and>
    \<not> clock s - get (cmd_guard s) (guard_key who1 (clamp m1)) < CMD_GUARD_TTL \<and>
    input_box (start_send env1) \<noteq> Lookup_raises \<longrightarrow>
      fst (start_break env1 m1 who1 s) = Inr Ok_true) \<and>
   (fst (start_break env1 m1 who1 s) = Inr Ok_true \<and> clamp m2 = clamp m1 \<and>
    t2 - clock s < GLOBAL_MINUTE_GUARD \<longrightarrow>
      running_timers (snd (start_break env1 m1 who1 s)) = running_timers s @
        [\<lparr>timer_minutes = clamp m1,
          timer_end_text = format (choice (pick_end env1) END_TPL) (clamp m1) who1\<rparr>] \<and>
      start_break env2 m2 who2 ((snd (start_break env1 m1 who1 s))\<lparr>clock := t2\<rparr>) =
        (Inr (Ok_false ''minute-guard''), (snd (start_break env1 m1 who1 s))\<lparr>clock := t2\<rparr>))"
proof (intro conjI impI)
  assume a: "\<not> clock s - get (minute_global_guard s) (clamp m1) < GLOBAL_MINUTE_GUARD \<and>
    \<not> clock s - get (cmd_guard s) (guard_key who1 (clamp m1)) < CMD_GUARD_TTL \<and>
    input_box (start_send env1) \<noteq> Lookup_raises"
  let ?tx = "format (choice (pick_start env1) START_TPL) (clamp m1) who1"
  let ?s2 = "guards_recorded m1 who1 s"
  have "fst (say (start_send env1) ?tx ?s2) = Inr ()"
    using a by (simp add: say_fst)
  then show "fst (start_break env1 m1 who1 s) = Inr Ok_true"
    using a by (cases "say (start_send env1) ?tx ?s2") (simp add: start_break_pass)
next
  assume b: "fst (start_break env1 m1 who1 s) = Inr Ok_true \<and> clamp m2 = clamp m1 \<and>
    t2 - clock s < GLOBAL_MINUTE_GUARD"
  then have ok: "fst (start_break env1 m1 who1 s) = Inr Ok_true" by simp
  show "running_timers (snd (start_break env1 m1 who1 s)) = running_timers s @
        [\<lparr>timer_minutes = clamp m1,
          timer_end_text = format (choice (pick_end env1) END_TPL) (clamp m1) who1\<rparr>]"
    by (rule start_break_accepted(1) [OF ok])
  let ?s1 = "(snd (start_break env1 m1 who1 s))\<lparr>clock := t2\<rparr>"
  have "clock ?s1 - get (minute_global_guard ?s1) (clamp m2) < GLOBAL_MINUTE_GUARD"
    using b start_break_accepted(2) [OF ok] by (simp add: get_def)
  then show "start_break env2 m2 who2 ?s1 = (Inr (Ok_false ''minute-guard''), ?s1)"
    by (rule start_break_global_hit)
qed

theorem second_break_within_window_refused_witness:
  "fst (start_break benv 10 cheolsu (new_bot 1000 {})) = Inr Ok_true \<and>
   map timer_minutes (running_timers (snd (start_break benv 10 cheolsu (new_bot 1000 {})))) = [10] \<and>
   start_break benv 10 yeonghui c1_after_first = (Inr (Ok_false ''minute-guard''), c1_after_first)"
  using second_break_within_window_refused
    [of "new_bot 1000 {}" 10 cheolsu benv 10 1005 benv yeonghui]
  by (simp add: c1_after_first_def)
     (simp add: new_bot_def get_def clamp_def guard_key_def benv_def env_ok_def
        GLOBAL_MINUTE_GUARD_def CMD_GUARD_TTL_def)

text \<open>
  C1 as stated fails when the first of the two calls is itself refused: after an accepted
  call at time 1000, a call at 1005 is refused, and a third call at 1012 (7 seconds after
  the refused one, same duration) is accepted.
\<close>

theorem refused_call_followed_by_accepted_call:
  "fst (start_break benv 10 yeonghui c1_after_first) = Inr (Ok_false ''minute-guard'') \<and>
   clock c1_after_first = 1005 \<and> clock c1_after_second = 1012 \<and>
   fst (start_break benv 10 minsu c1_after_second) = Inr Ok_true"
  by (simp add: c1_after_second_def c1_after_first_def first_call_state) (simp add: run_defs)





end
